theory Spec2Isabelle
  imports Main "HOL-Library.Word" "HOL-Library.Signed_Division"
begin

section \<open>Transform worker: errors and tag names\<close>

text \<open>
  The worker's Go errors as values. \<open>ErrDatumRecovered\<close> is the package-level sentinel
  \<^verbatim>\<open>errDatumRecovered\<close>; it is unexported, so no collaborator outside the package can
  return it: every error that comes from the driver, the object store or a library is an
  \<open>ErrExt\<close> carrying its message. \<open>ErrWrap e m\<close> is \<^verbatim>\<open>errors.Wrap(e, m)\<close>.
  \<open>ErrPanic\<close> stands for a run-time panic (a nil pointer dereference).
\<close>

datatype error =
    ErrDatumRecovered
  | ErrUnrecognizedTaskFormat
  | ErrExt string
  | ErrWrap error string
  | ErrPanic string

fun Error :: "error \<Rightarrow> string" where
  "Error ErrDatumRecovered = ''the datum errored, and the error was handled successfully''"
| "Error ErrUnrecognizedTaskFormat = ''worker task format unrecognized''"
| "Error (ErrExt m) = m"
| "Error (ErrWrap e m) = m @ '': '' @ Error e"
| "Error (ErrPanic m) = m"

definition statsTagSuffix :: string where
  "statsTagSuffix = ''_stats''"

text \<open>
  \<^verbatim>\<open>fmt.Sprintf\<close> for the one verb this package's tag functions use, \<^verbatim>\<open>%s\<close> with
  string operands: each \<^verbatim>\<open>%s\<close> is replaced by the next operand, a verb with no operand
  left prints \<^verbatim>\<open>%!s(MISSING)\<close>, and operands left over are reported at the end.
\<close>

fun extraOperands :: "string list \<Rightarrow> string" where
  "extraOperands [] = []"
| "extraOperands [a] = ''string='' @ a"
| "extraOperands (a # b # bs) = ''string='' @ a @ '', '' @ extraOperands (b # bs)"

definition sprintfEnd :: "string list \<Rightarrow> string" where
  "sprintfEnd as = (if as = [] then [] else ''%!(EXTRA '' @ extraOperands as @ '')'')"

fun Sprintf :: "string \<Rightarrow> string list \<Rightarrow> string" where
  "Sprintf [] as = sprintfEnd as"
| "Sprintf [c] as = c # sprintfEnd as"
| "Sprintf (c # d # fmt) as =
     (if c = CHR ''%'' \<and> d = CHR ''s''
      then (case as of
              [] \<Rightarrow> ''%!s(MISSING)'' @ Sprintf fmt []
            | a # as' \<Rightarrow> a @ Sprintf fmt as')
      else c # Sprintf (d # fmt) as)"

text \<open>
  \<^verbatim>\<open>jobTagPrefix\<close> is defined in another file of the package; the tag functions take it
  as the parameter \<open>jobTagPrefix\<close>.
\<close>

definition jobRecoveredDatumsTag :: "(string \<Rightarrow> string) \<Rightarrow> string \<Rightarrow> string \<Rightarrow> string" where
  "jobRecoveredDatumsTag jobTagPrefix jobID subtaskID =
     Sprintf ''%s-recovered-%s'' [jobTagPrefix jobID, subtaskID]"

definition jobChunkStatsTag :: "(string \<Rightarrow> string) \<Rightarrow> string \<Rightarrow> string \<Rightarrow> string" where
  "jobChunkStatsTag jobTagPrefix jobID subtaskID =
     Sprintf ''%s-chunk-stats-%s'' [jobTagPrefix jobID, subtaskID]"

definition jobChunkTag :: "(string \<Rightarrow> string) \<Rightarrow> string \<Rightarrow> string \<Rightarrow> string" where
  "jobChunkTag jobTagPrefix jobID subtaskID =
     Sprintf ''%s-chunk-%s'' [jobTagPrefix jobID, subtaskID]"

section \<open>Stats accumulator\<close>

text \<open>
  \<^verbatim>\<open>types.Duration\<close> is the protobuf message \<^verbatim>\<open>{Seconds int64, Nanos int32}\<close>, and
  \<^verbatim>\<open>time.Duration\<close> is an \<^verbatim>\<open>int64\<close> count of nanoseconds. A pointer that may be nil is
  an \<open>option\<close>. The counters of \<^verbatim>\<open>DatumStats\<close> are \<^verbatim>\<open>int64\<close> and the byte counts of
  \<^verbatim>\<open>pps.ProcessStats\<close> are \<^verbatim>\<open>uint64\<close>: 64-bit words, whose \<open>+\<close> wraps as Go's does.
\<close>

record Duration =
  Seconds :: "64 word"
  Nanos :: "32 word"

record ProcessStats =
  DownloadTime :: "Duration option"
  ProcessTime :: "Duration option"
  UploadTime :: "Duration option"
  DownloadBytes :: "64 word"
  UploadBytes :: "64 word"

record DatumStats =
  ProcessStats :: "ProcessStats option"
  DatumsProcessed :: "64 word"
  DatumsSkipped :: "64 word"
  DatumsFailed :: "64 word"
  DatumsRecovered :: "64 word"
  FailedDatumID :: string

text \<open>
  The conversions between the two duration types are functions of the protobuf
  \<^verbatim>\<open>types\<close> library the package imports (\<^verbatim>\<open>types.DurationFromProto\<close>,
  \<^verbatim>\<open>types.DurationProto\<close>); they are written here as that library defines them, with
  the error messages shortened. Go's \<^verbatim>\<open>/\<close> on integers truncates towards zero
  (\<open>sdiv\<close> on \<open>int\<close>), and \<^verbatim>\<open>int64\<close> arithmetic wraps (\<open>word_of_int\<close>).
\<close>

definition maxSeconds :: int where
  "maxSeconds = 315576000000"

definition minSeconds :: int where
  "minSeconds = - maxSeconds"

definition validateDuration :: "Duration \<Rightarrow> error option" where
  "validateDuration d =
     (if sint (Seconds d) < minSeconds \<or> maxSeconds < sint (Seconds d)
      then Some (ErrExt ''duration: seconds out of range'')
      else if sint (Nanos d) \<le> - 1000000000 \<or> 1000000000 \<le> sint (Nanos d)
      then Some (ErrExt ''duration: nanos out of range'')
      else if (sint (Seconds d) < 0 \<and> 0 < sint (Nanos d)) \<or> (0 < sint (Seconds d) \<and> sint (Nanos d) < 0)
      then Some (ErrExt ''duration: seconds and nanos have different signs'')
      else None)"

definition DurationFromProto :: "Duration \<Rightarrow> error + 64 word" where
  "DurationFromProto p =
     (case validateDuration p of
        Some err \<Rightarrow> Inl err
      | None \<Rightarrow>
          (let d = (word_of_int (sint (Seconds p) * 1000000000) :: 64 word) in
           if sint d sdiv 1000000000 \<noteq> sint (Seconds p)
           then Inl (ErrExt ''duration: out of range for time.Duration'')
           else if Nanos p \<noteq> 0
           then (let d' = d + word_of_int (sint (Nanos p)) in
                 if (sint d' < 0) \<noteq> (sint (Nanos p) < 0)
                 then Inl (ErrExt ''duration: out of range for time.Duration'')
                 else Inr d')
           else Inr d))"

definition DurationProto :: "64 word \<Rightarrow> Duration" where
  "DurationProto d =
     (let nanos = sint d;
          secs = nanos sdiv 1000000000;
          nanos' = nanos - secs * 1000000000
      in \<lparr>Seconds = word_of_int secs, Nanos = word_of_int nanos'\<rparr>)"

text \<open>
  \<^verbatim>\<open>plusDuration\<close> returns a pair \<^verbatim>\<open>(*types.Duration, error)\<close>: \<^verbatim>\<open>(nil, err)\<close> when a
  conversion fails. A nil operand counts as the zero duration.
\<close>

definition plusDuration :: "Duration option \<Rightarrow> Duration option \<Rightarrow> Duration option \<times> error option" where
  "plusDuration x y =
     (case (case x of None \<Rightarrow> Inr 0 | Some xp \<Rightarrow> DurationFromProto xp) of
        Inl err \<Rightarrow> (None, Some err)
      | Inr xd \<Rightarrow>
          (case (case y of None \<Rightarrow> Inr 0 | Some yp \<Rightarrow> DurationFromProto yp) of
             Inl err \<Rightarrow> (None, Some err)
           | Inr yd \<Rightarrow> (Some (DurationProto (xd + yd)), None)))"

text \<open>
  \<^verbatim>\<open>mergeStats\<close> merges \<open>y\<close> into \<open>x\<close> in place and returns an error. The model returns
  \<open>x\<close> as the call leaves it together with the error: each
  \<^verbatim>\<open>xps.F, err = plusDuration(...)\<close> stores the returned pointer (nil on error) before
  the error is tested, and an error returns before the counters are touched. With
  \<^verbatim>\<open>y.ProcessStats\<close> set and \<^verbatim>\<open>x.ProcessStats\<close> nil the first field access panics.
\<close>

definition mergeCounts :: "DatumStats \<Rightarrow> DatumStats \<Rightarrow> DatumStats" where
  "mergeCounts x y =
     x\<lparr>DatumsProcessed := DatumsProcessed x + DatumsProcessed y,
       DatumsSkipped := DatumsSkipped x + DatumsSkipped y,
       DatumsFailed := DatumsFailed x + DatumsFailed y,
       DatumsRecovered := DatumsRecovered x + DatumsRecovered y,
       FailedDatumID := (if FailedDatumID x = [] then FailedDatumID y else FailedDatumID x)\<rparr>"

definition mergeStats :: "DatumStats \<Rightarrow> DatumStats \<Rightarrow> DatumStats \<times> error option" where
  "mergeStats x y =
     (case ProcessStats y of
        None \<Rightarrow> (mergeCounts x y, None)
      | Some yps \<Rightarrow>
          (case ProcessStats x of
             None \<Rightarrow> (x, Some (ErrPanic ''invalid memory address or nil pointer dereference''))
           | Some xps \<Rightarrow>
               (let (dt, err1) = plusDuration (DownloadTime xps) (DownloadTime yps);
                    xps1 = xps\<lparr>DownloadTime := dt\<rparr>
                in if err1 \<noteq> None then (x\<lparr>ProcessStats := Some xps1\<rparr>, err1)
                   else
                    (let (pt, err2) = plusDuration (ProcessTime xps1) (ProcessTime yps);
                         xps2 = xps1\<lparr>ProcessTime := pt\<rparr>
                     in if err2 \<noteq> None then (x\<lparr>ProcessStats := Some xps2\<rparr>, err2)
                        else
                         (let (ut, err3) = plusDuration (UploadTime xps2) (UploadTime yps);
                              xps3 = xps2\<lparr>UploadTime := ut\<rparr>
                          in if err3 \<noteq> None then (x\<lparr>ProcessStats := Some xps3\<rparr>, err3)
                             else
                              (let xps4 = xps3\<lparr>DownloadBytes := DownloadBytes xps3 + DownloadBytes yps\<rparr>;
                                   xps5 = xps4\<lparr>UploadBytes := UploadBytes xps4 + UploadBytes yps\<rparr>
                               in (mergeCounts (x\<lparr>ProcessStats := Some xps5\<rparr>) y, None)))))))"

text \<open>
  Reading the result: \<open>nanoseconds\<close> is the conversion \<^verbatim>\<open>plusDuration\<close> applies to
  an operand, and \<open>durationSum a b c\<close> says that both operands convert and \<open>c\<close> is the
  message for the (wrapping) sum of their nanoseconds, which converts back to that sum.
\<close>

definition nanoseconds :: "Duration option \<Rightarrow> error + 64 word" where
  "nanoseconds x = (case x of None \<Rightarrow> Inr 0 | Some p \<Rightarrow> DurationFromProto p)"

definition durationSum :: "Duration option \<Rightarrow> Duration option \<Rightarrow> Duration option \<Rightarrow> bool" where
  "durationSum a b c =
     (case (nanoseconds a, nanoseconds b) of
        (Inr ad, Inr bd) \<Rightarrow> c = Some (DurationProto (ad + bd)) \<and> nanoseconds c = Inr (ad + bd)
      | _ \<Rightarrow> False)"

text \<open>
  The error of a merge, read off the two arguments: \<open>conversionError\<close> is the error of
  the conversion of one duration (\<open>None\<close> when it converts), \<open>firstError\<close> is the first
  error of a list of outcomes, and \<open>mergeError x y\<close> is the outcome \<^verbatim>\<open>mergeStats(x, y)\<close>
  has to have: nothing can fail when \<open>y.ProcessStats\<close> is nil; with \<open>y.ProcessStats\<close>
  set and \<open>x.ProcessStats\<close> nil the call panics; otherwise the durations are converted
  in the order download, process, upload, those of \<open>x\<close> before those of \<open>y\<close>.
\<close>

definition conversionError :: "Duration option \<Rightarrow> error option" where
  "conversionError d = (case nanoseconds d of Inl err \<Rightarrow> Some err | Inr n \<Rightarrow> None)"

fun firstError :: "error option list \<Rightarrow> error option" where
  "firstError [] = None"
| "firstError (None # es) = firstError es"
| "firstError (Some err # es) = Some err"

definition mergeError :: "DatumStats \<Rightarrow> DatumStats \<Rightarrow> error option" where
  "mergeError x y =
     (case ProcessStats y of
        None \<Rightarrow> None
      | Some yps \<Rightarrow>
          (case ProcessStats x of
             None \<Rightarrow> Some (ErrPanic ''invalid memory address or nil pointer dereference'')
           | Some xps \<Rightarrow>
               firstError [conversionError (DownloadTime xps), conversionError (DownloadTime yps),
                 conversionError (ProcessTime xps), conversionError (ProcessTime yps),
                 conversionError (UploadTime xps), conversionError (UploadTime yps)]))"

section \<open>Processing one datum\<close>

text \<open>
  The pipeline's configuration, as far as this file reads it. \<open>ErrCmd\<close> is
  \<^verbatim>\<open>Transform.ErrCmd\<close> (nil when no error handler is configured) and \<open>S3Inputs\<close> is
  \<^verbatim>\<open>ppsutil.ContainsS3Inputs(Input)\<close>. \<open>DatumTries\<close> is an \<^verbatim>\<open>int64\<close>; it is only compared
  with the counter \<^verbatim>\<open>failures\<close>, which counts up from 0 and stops the loop as soon as it
  reaches \<open>DatumTries\<close>, so it never overflows and both are modelled as \<open>int\<close>.
\<close>

record PipelineInfo =
  PipelineName :: string
  Salt :: string
  EnableStats :: bool
  S3Out :: bool
  S3Inputs :: bool
  DatumTries :: int
  ErrCmd :: "string list option"

record Input =
  Name :: string
  FilePath :: string
  CommitID :: string

text \<open>
  The object store, the caches, the driver and the user's code are collaborators outside
  this file. Each call the code makes to one of them has its answer in a record of
  answers: \<open>None\<close> (or \<open>Inr\<close>) when the call succeeds, the error's message otherwise.
  \<open>StoreCall\<close> answers the recurring sequence \<^verbatim>\<open>PutObject\<close>, \<^verbatim>\<open>InspectObject\<close>,
  \<^verbatim>\<open>pfs.DecodeHash\<close> that stores one object and reads back its hash and block.
\<close>

record StoreCall =
  PutObjectErr :: "string option"
  InspectObjectErr :: "string option"
  DecodeHashErr :: "string option"

text \<open>The answers of one pass of the retry loop's operation.\<close>

record Attempt =
  WithDataErr :: "string option"
  WithDataStats :: "ProcessStats option"
  WithActiveDataErr :: "string option"
  RunUserCode :: "string option"
  RunUserErrorHandlingCode :: "string option"
  UploadOutput :: "string + string"
  CachePut :: "string option"

text \<open>The answers \<^verbatim>\<open>writeStats\<close> gets, in the order of its calls.\<close>

record StatsWriter =
  MarshalToString :: "ProcessStats option \<Rightarrow> string + string"
  StatsObject :: StoreCall
  LoggerClose :: "string + string option"
  LogsInspectErr :: "string option"
  LogsDecodeErr :: "string option"
  MergeTrees :: "string + string"
  PutObjectAsyncErr :: "string option"
  ObjWriteErr :: "string option"
  StatsCachePutErr :: "string option"
  ObjCloseErr :: "string option"

text \<open>
  The answers one call of \<^verbatim>\<open>processDatum\<close> gets. \<open>Attempts\<close> and \<open>CtxDone\<close> are
  indexed by the value of \<^verbatim>\<open>failures\<close> at the time of the call.
\<close>

record Driver =
  HashDatum :: "string \<Rightarrow> string \<Rightarrow> Input list \<Rightarrow> string"
  DatumID :: "Input list \<Rightarrow> string"
  InspectTag :: "string \<Rightarrow> string option"
  GetTag :: "string \<Rightarrow> string + string"
  HitCachePut :: "string option"
  HitStatsCachePut :: "string option"
  IndexObject :: StoreCall
  Attempts :: "int \<Rightarrow> Attempt"
  CtxDone :: "int \<Rightarrow> bool"
  FailureObject :: StoreCall
  Writer :: StatsWriter

text \<open>
  What a call of \<^verbatim>\<open>processDatum\<close> has done so far: the loop counter, the
  \<^verbatim>\<open>stats.ProcessStats\<close> pointer, how often the user's code and the error handler were
  started, the files put into the datum's unordered stats tree (\<open>None\<close> while
  \<^verbatim>\<open>statsTree\<close> is nil; a file is its path and the content of the object it points to),
  and the entries put into the two datum caches (key and content; the key \<open>None\<close> is a
  fresh random key from \<^verbatim>\<open>uuid.NewWithoutDashes\<close>).
\<close>

record DatumState =
  failures :: int
  processStats :: "ProcessStats option"
  userCodeRuns :: nat
  errHandlerRuns :: nat
  statsTree :: "(string \<times> string) list option"
  datumCache :: "(string option \<times> string) list"
  datumStatsCache :: "(string option \<times> string) list"

definition initState :: DatumState where
  "initState = \<lparr>failures = 0, processStats = None, userCodeRuns = 0, errHandlerRuns = 0,
     statsTree = None, datumCache = [], datumStatsCache = []\<rparr>"

definition PutFile :: "string \<Rightarrow> string \<Rightarrow> DatumState \<Rightarrow> DatumState" where
  "PutFile path content st = st\<lparr>statsTree := map_option (\<lambda>t. t @ [(path, content)]) (statsTree st)\<rparr>"

text \<open>\<^verbatim>\<open>fmt.Sprint\<close> of an \<^verbatim>\<open>int\<close>: its decimal digits, with a minus sign when negative.\<close>

function decimal :: "nat \<Rightarrow> string" where
  "decimal n = (if n < 10 then [''0123456789'' ! n] else decimal (n div 10) @ [''0123456789'' ! (n mod 10)])"
  by pat_completeness auto
termination
  by (relation "measure id") auto

definition Sprint :: "int \<Rightarrow> string" where
  "Sprint i = (if i < 0 then CHR ''-'' # decimal (nat (- i)) else decimal (nat i))"

text \<open>
  The operation of the retry loop: the closure passed to \<^verbatim>\<open>backoff.RetryUntilCancel\<close>.
  \<^verbatim>\<open>WithData\<close>, \<^verbatim>\<open>WithActiveData\<close> and \<^verbatim>\<open>status.withDatum\<close> are scoped acquisitions of
  the driver and the status (not in this file): each either fails before it runs its
  callback or runs it and returns the callback's error unchanged. \<^verbatim>\<open>WithData\<close> also
  returns the process stats, which the closure stores in \<^verbatim>\<open>stats.ProcessStats\<close>.
\<close>

definition runUser :: "PipelineInfo \<Rightarrow> Attempt \<Rightarrow> DatumState \<Rightarrow> DatumState \<times> error option" where
  "runUser pi a st =
     (let st1 = st\<lparr>userCodeRuns := Suc (userCodeRuns st)\<rparr> in
      case RunUserCode a of
        Some m \<Rightarrow>
          if ErrCmd pi \<noteq> None \<and> failures st = DatumTries pi - 1
          then (let st2 = st1\<lparr>errHandlerRuns := Suc (errHandlerRuns st1)\<rparr> in
                case RunUserErrorHandlingCode a of
                  Some m' \<Rightarrow> (st2, Some (ErrWrap (ErrExt m') ''RunUserErrorHandlingCode''))
                | None \<Rightarrow> (st2, Some ErrDatumRecovered))
          else (st1, Some (ErrExt m))
      | None \<Rightarrow> (st1, None))"

definition withDataCallback :: "PipelineInfo \<Rightarrow> Attempt \<Rightarrow> DatumState \<Rightarrow> DatumState \<times> error option" where
  "withDataCallback pi a st =
     (case WithActiveDataErr a of
        Some m \<Rightarrow> (st, Some (ErrExt m))
      | None \<Rightarrow>
          (case runUser pi a st of
             (st1, Some err) \<Rightarrow> (st1, Some err)
           | (st1, None) \<Rightarrow>
               if S3Out pi then (st1, None)
               else (case UploadOutput a of
                       Inl m \<Rightarrow> (st1, Some (ErrExt m))
                     | Inr hashtreeBytes \<Rightarrow>
                         (case CachePut a of
                            Some m \<Rightarrow> (st1, Some (ErrExt m))
                          | None \<Rightarrow> (st1\<lparr>datumCache := datumCache st1 @ [(None, hashtreeBytes)]\<rparr>, None)))))"

definition operation :: "PipelineInfo \<Rightarrow> Driver \<Rightarrow> DatumState \<Rightarrow> DatumState \<times> error option" where
  "operation pi drv st =
     (let a = Attempts drv (failures st);
          st0 = st\<lparr>processStats := WithDataStats a\<rparr>
      in case WithDataErr a of
           Some m \<Rightarrow> (st0, Some (ErrExt m))
         | None \<Rightarrow> withDataCallback pi a st0)"

text \<open>
  The notify callback of the retry loop. It returns an error to stop the loop and nil to
  retry. On a retry with stats enabled it replaces the input and output trees by fresh
  ones; their contents belong to the hashtree library and are not modelled.
\<close>

definition notify :: "PipelineInfo \<Rightarrow> Driver \<Rightarrow> error \<Rightarrow> DatumState \<Rightarrow> DatumState \<times> error option" where
  "notify pi drv err st =
     (let st1 = st\<lparr>failures := failures st + 1\<rparr> in
      if failures st1 \<ge> DatumTries pi
      then (if statsTree st1 \<noteq> None
            then (case PutObjectErr (FailureObject drv) of
                    Some m \<Rightarrow> (st1, Some err)
                  | None \<Rightarrow>
                      (case InspectObjectErr (FailureObject drv) of
                         Some m \<Rightarrow> (st1, Some (ErrExt m))
                       | None \<Rightarrow>
                           (case DecodeHashErr (FailureObject drv) of
                              Some m \<Rightarrow> (st1, Some (ErrExt m))
                            | None \<Rightarrow> (PutFile ''failure'' (Error err) st1, Some err))))
            else (st1, Some err))
      else (st1, None))"

lemma operation_failures: "operation pi drv st = (st1, r) \<Longrightarrow> failures st1 = failures st"
  by (auto simp: operation_def withDataCallback_def runUser_def Let_def
      split: option.splits sum.splits prod.splits if_splits)

lemma notify_retry:
  "notify pi drv err st = (st2, None) \<Longrightarrow> failures st2 = failures st + 1 \<and> failures st2 < DatumTries pi"
  by (auto simp: notify_def Let_def PutFile_def split: option.splits if_splits)

lemma retry_decreases:
  "operation pi drv st = (st1, Some err) \<Longrightarrow> notify pi drv err st1 = (st2, None) \<Longrightarrow>
   failures st < DatumTries pi \<and> failures st < failures st2"
  using operation_failures [of pi drv st st1 "Some err"] notify_retry [of pi drv err st1 st2]
  by simp

text \<open>
  Modelled from the spec: \<^verbatim>\<open>backoff.RetryUntilCancel\<close> with \<^verbatim>\<open>backoff.ZeroBackOff\<close>, a
  function of the repository's backoff package that is not in this file. The spec: a
  retry loop with zero-delay backoff, cancellable by context, that runs the operation,
  returns nil when it succeeds, and otherwise calls the retry policy, which either
  aborts the loop with an error or lets it retry. After a notify that asks for a retry
  the loop ends with the context's error if the context is done.
\<close>

function RetryUntilCancel :: "PipelineInfo \<Rightarrow> Driver \<Rightarrow> DatumState \<Rightarrow> DatumState \<times> error option" where
  "RetryUntilCancel pi drv st =
     (let r = operation pi drv st in
      case snd r of
        None \<Rightarrow> (fst r, None)
      | Some err \<Rightarrow>
          (let n = notify pi drv err (fst r) in
           case snd n of
             Some nerr \<Rightarrow> (fst n, Some nerr)
           | None \<Rightarrow>
               if CtxDone drv (failures (fst n)) then (fst n, Some (ErrExt ''context canceled''))
               else RetryUntilCancel pi drv (fst n)))"
  by pat_completeness auto
termination
proof (relation "measure (\<lambda>(pi, drv, st). nat (DatumTries pi - failures st))", goal_cases)
  case 1
  show ?case by simp
next
  case (2 pi drv st r err n)
  then have "operation pi drv st = (fst r, Some err)" and "notify pi drv err (fst r) = (fst n, None)"
    by (simp_all add: prod_eq_iff)
  from retry_decreases [OF this] show ?case by simp
qed

text \<open>
  \<^verbatim>\<open>writeStats\<close>: the first failing step returns its error. The deferred
  \<^verbatim>\<open>objW.Close()\<close> is installed once \<^verbatim>\<open>PutObjectAsync\<close> has succeeded; its error is
  returned when no earlier error was.
\<close>

definition closeObjW :: "StatsWriter \<Rightarrow> DatumState \<times> error option \<Rightarrow> DatumState \<times> error option" where
  "closeObjW w r =
     (case ObjCloseErr w of
        Some m \<Rightarrow> (if snd r = None then (fst r, Some (ErrExt m)) else r)
      | None \<Rightarrow> r)"

definition writeStatsTrees :: "StatsWriter \<Rightarrow> string \<Rightarrow> DatumState \<Rightarrow> DatumState \<times> error option" where
  "writeStatsTrees w tag st =
     (case MergeTrees w of
        Inl m \<Rightarrow> (st, Some (ErrExt m))
      | Inr buf \<Rightarrow>
          (case PutObjectAsyncErr w of
             Some m \<Rightarrow> (st, Some (ErrExt m))
           | None \<Rightarrow>
               closeObjW w
                 (case ObjWriteErr w of
                    Some m \<Rightarrow> (st, Some (ErrExt m))
                  | None \<Rightarrow>
                      (case StatsCachePutErr w of
                         Some m \<Rightarrow> (st, Some (ErrExt m))
                       | None \<Rightarrow> (st\<lparr>datumStatsCache := datumStatsCache st @ [(Some tag, buf)]\<rparr>, None)))))"

definition writeStatsLogs :: "StatsWriter \<Rightarrow> string \<Rightarrow> DatumState \<Rightarrow> DatumState \<times> error option" where
  "writeStatsLogs w tag st =
     (case LoggerClose w of
        Inl m \<Rightarrow> (st, Some (ErrExt m))
      | Inr None \<Rightarrow> writeStatsTrees w tag st
      | Inr (Some logs) \<Rightarrow>
          (case LogsInspectErr w of
             Some m \<Rightarrow> (st, Some (ErrExt m))
           | None \<Rightarrow>
               (case LogsDecodeErr w of
                  Some m \<Rightarrow> (st, Some (ErrExt m))
                | None \<Rightarrow> writeStatsTrees w tag (PutFile ''logs'' logs st))))"

definition writeStats :: "StatsWriter \<Rightarrow> string \<Rightarrow> DatumState \<Rightarrow> DatumState \<times> error option" where
  "writeStats w tag st =
     (case MarshalToString w (processStats st) of
        Inl m \<Rightarrow> (st, Some (ErrExt m))
      | Inr statsString \<Rightarrow>
          (case PutObjectErr (StatsObject w) of
             Some m \<Rightarrow> (st, Some (ErrExt m))
           | None \<Rightarrow>
               (case InspectObjectErr (StatsObject w) of
                  Some m \<Rightarrow> (st, Some (ErrExt m))
                | None \<Rightarrow>
                    (case DecodeHashErr (StatsObject w) of
                       Some m \<Rightarrow> (st, Some (ErrExt m))
                     | None \<Rightarrow> writeStatsLogs w tag (PutFile ''stats'' statsString st)))))"

text \<open>
  \<^verbatim>\<open>processDatum\<close> returns \<^verbatim>\<open>(stats, recoveredDatumTags, retErr)\<close>; the model adds the
  state the call ended in.
\<close>

record DatumResult =
  subStats :: DatumStats
  subRecovered :: "string list"
  retErr :: "error option"
  final :: DatumState

definition emptyStats :: DatumStats where
  "emptyStats = \<lparr>ProcessStats = None, DatumsProcessed = 0, DatumsSkipped = 0, DatumsFailed = 0,
     DatumsRecovered = 0, FailedDatumID = []\<rparr>"

definition result :: "DatumStats \<Rightarrow> string list \<Rightarrow> error option \<Rightarrow> DatumState \<Rightarrow> DatumResult" where
  "result stats recovered err st = \<lparr>subStats = stats, subRecovered = recovered, retErr = err, final = st\<rparr>"

text \<open>The cache probe: the branch taken when \<^verbatim>\<open>InspectTag\<close> returns no error.\<close>

definition cacheHit :: "PipelineInfo \<Rightarrow> Driver \<Rightarrow> string \<Rightarrow> DatumResult" where
  "cacheHit pi drv tag =
     (let stats = emptyStats; st = initState in
      case GetTag drv tag of
        Inl m \<Rightarrow> result stats [] (Some (ErrExt m)) st
      | Inr buf \<Rightarrow>
          (case HitCachePut drv of
             Some m \<Rightarrow> result stats [] (Some (ErrExt m)) st
           | None \<Rightarrow>
               (let st1 = st\<lparr>datumCache := datumCache st @ [(None, buf)]\<rparr> in
                if EnableStats pi
                then (case GetTag drv (tag @ statsTagSuffix) of
                        Inl m \<Rightarrow> result stats [] None st1
                      | Inr sbuf \<Rightarrow>
                          (case HitStatsCachePut drv of
                             Some m \<Rightarrow> result stats [] (Some (ErrExt m)) st1
                           | None \<Rightarrow>
                               result (stats\<lparr>DatumsSkipped := DatumsSkipped stats + 1\<rparr>) [] None
                                 (st1\<lparr>datumStatsCache := datumStatsCache st1 @ [(None, sbuf)]\<rparr>)))
                else result (stats\<lparr>DatumsSkipped := DatumsSkipped stats + 1\<rparr>) [] None st1)))"

text \<open>
  The retry loop and the classification of its error. \<^verbatim>\<open>stats.ProcessStats\<close> is the
  pointer the last pass of the loop stored.
\<close>

definition classify :: "string \<Rightarrow> string \<Rightarrow> DatumState \<times> error option \<Rightarrow> DatumResult" where
  "classify tag datumID r =
     (let st = fst r; stats = emptyStats\<lparr>ProcessStats := processStats st\<rparr> in
      if snd r = Some ErrDatumRecovered
      then result (stats\<lparr>DatumsRecovered := DatumsRecovered stats + 1\<rparr>) [tag] None st
      else if snd r \<noteq> None
      then result (stats\<lparr>FailedDatumID := datumID, DatumsFailed := DatumsFailed stats + 1\<rparr>) [] None st
      else result (stats\<lparr>DatumsProcessed := DatumsProcessed stats + 1\<rparr>) [] None st)"

text \<open>
  The deferred call of \<^verbatim>\<open>writeStats\<close>, installed once the stats tree is set up: it runs
  when \<^verbatim>\<open>processDatum\<close> returns and replaces a nil \<^verbatim>\<open>retErr\<close> by its own error.
\<close>

definition deferredWriteStats :: "Driver \<Rightarrow> string \<Rightarrow> DatumResult \<Rightarrow> DatumResult" where
  "deferredWriteStats drv tag r =
     (case writeStats (Writer drv) tag (final r) of
        (st, werr) \<Rightarrow>
          r\<lparr>final := st, retErr := (if werr \<noteq> None \<and> retErr r = None then werr else retErr r)\<rparr>)"

definition processDatum :: "PipelineInfo \<Rightarrow> Driver \<Rightarrow> string \<Rightarrow> int \<Rightarrow> Input list \<Rightarrow> DatumResult" where
  "processDatum pi drv jobID datumIndex inputs =
     (let tag = HashDatum drv (PipelineName pi) (Salt pi) inputs;
          datumID = DatumID drv inputs
      in if InspectTag drv tag = None then cacheHit pi drv tag
         else if EnableStats pi
         then (let st = initState\<lparr>statsTree := Some [(''job:'' @ jobID, [])]\<rparr> in
               case PutObjectErr (IndexObject drv) of
                 Some m \<Rightarrow> result emptyStats [] (Some (ErrExt m)) st
               | None \<Rightarrow>
                   (case InspectObjectErr (IndexObject drv) of
                      Some m \<Rightarrow> result emptyStats [] (Some (ErrExt m)) st
                    | None \<Rightarrow>
                        (case DecodeHashErr (IndexObject drv) of
                           Some m \<Rightarrow> result emptyStats [] (Some (ErrExt m)) st
                         | None \<Rightarrow>
                             deferredWriteStats drv tag
                               (classify tag datumID
                                  (RetryUntilCancel pi drv (PutFile ''index'' (Sprint datumIndex) st))))))
         else classify tag datumID (RetryUntilCancel pi drv initState))"

section \<open>The datum task handler\<close>

text \<open>
  The payload of a datum subtask. \<open>Datums\<close> is the handle of the object that stores the
  datum list; pointers that may be nil are options.
\<close>

record HashtreeInfo =
  Address :: string
  Tag :: string

record DatumData =
  JobID :: string
  Datums :: string
  OutputCommit :: string
  Stats :: "DatumStats option"
  ChunkHashtree :: "HashtreeInfo option"
  RecoveredDatumsTag :: string
  StatsHashtree :: "HashtreeInfo option"

text \<open>The answers one call of \<^verbatim>\<open>uploadChunk\<close> gets, in the order of its calls.\<close>

record ChunkUpload =
  CacheMerge :: "string + string"
  ChunkCachePutErr :: "string option"
  ChunkPutObjectAsyncErr :: "string option"
  ChunkWriteErr :: "string option"
  ChunkCloseErr :: "string option"

text \<open>
  The answers one call of \<^verbatim>\<open>handleDatumTask\<close> gets. \<open>ReadDatums\<close> is the datum list
  \<^verbatim>\<open>forEachDatum\<close> reads from the object; \<open>NewLoggerErr k\<close> and \<open>DatumDriver k\<close> answer
  the task of the \<open>k\<close>-th datum; \<open>WriteRecovered\<close> is \<^verbatim>\<open>pbw.Write\<close> on the
  \<^verbatim>\<open>RecoveredDatums\<close> message with the given hashes; \<open>WorkerIP\<close> is the environment
  variable named by \<^verbatim>\<open>client.PPSWorkerIPEnv\<close>; \<open>JobTagPrefix\<close> is the package's
  \<^verbatim>\<open>jobTagPrefix\<close>.
\<close>

record TaskEnv =
  CheckS3GatewayErr :: "string option"
  WithDatumCacheErr :: "string option"
  GetObjectErr :: "string option"
  ReadDatums :: "string + (int \<times> Input list) list"
  NewLoggerErr :: "nat \<Rightarrow> string option"
  DatumDriver :: "nat \<Rightarrow> Driver"
  WriteRecovered :: "string list \<Rightarrow> string + string"
  PutRecoveredErr :: "string option"
  ChunkCachesErr :: "string option"
  OutputUpload :: ChunkUpload
  ChunkStatsCachesErr :: "string option"
  StatsUpload :: ChunkUpload
  WorkerIP :: string
  JobTagPrefix :: "string \<Rightarrow> string"

text \<open>
  What the handler has published: the tagged objects written to the object store and
  the entries of the job's chunk cache and chunk stats cache (tag and content).
\<close>

record Published =
  objects :: "(string \<times> string) list"
  chunkCache :: "(string \<times> string) list"
  chunkStatsCache :: "(string \<times> string) list"

definition nothingPublished :: Published where
  "nothingPublished = \<lparr>objects = [], chunkCache = [], chunkStatsCache = []\<rparr>"

text \<open>
  \<^verbatim>\<open>uploadRecoveredDatums\<close>. \<^verbatim>\<open>logger.LogStep\<close> runs its callback and returns the
  callback's error. When writing the message to the buffer fails, the callback returns
  nil.
\<close>

definition uploadRecoveredDatums :: "TaskEnv \<Rightarrow> string list \<Rightarrow> string \<Rightarrow> Published \<Rightarrow> Published \<times> error option" where
  "uploadRecoveredDatums env recoveredDatums tag pub =
     (case WriteRecovered env recoveredDatums of
        Inl m \<Rightarrow> (pub, None)
      | Inr buf \<Rightarrow>
          (case PutRecoveredErr env of
             Some m \<Rightarrow> (pub, Some (ErrExt m))
           | None \<Rightarrow> (pub\<lparr>objects := objects pub @ [(tag, buf)]\<rparr>, None)))"

text \<open>
  \<^verbatim>\<open>uploadChunk\<close> merges the subtask's cache into a buffer, puts the buffer into the
  given chunk cache under the tag and uploads it to the object store under the tag. It
  returns the cache and the store's objects as the call leaves them.
\<close>

definition uploadChunk ::
  "ChunkUpload \<Rightarrow> string \<Rightarrow> (string \<times> string) list \<Rightarrow> (string \<times> string) list \<Rightarrow>
   ((string \<times> string) list \<times> (string \<times> string) list) \<times> error option" where
  "uploadChunk up tag cache objs =
     (case CacheMerge up of
        Inl m \<Rightarrow> ((cache, objs), Some (ErrExt m))
      | Inr buf \<Rightarrow>
          (case ChunkCachePutErr up of
             Some m \<Rightarrow> ((cache, objs), Some (ErrExt m))
           | None \<Rightarrow>
               (let cache' = cache @ [(tag, buf)] in
                case ChunkPutObjectAsyncErr up of
                  Some m \<Rightarrow> ((cache', objs), Some (ErrExt m))
                | None \<Rightarrow>
                    (case ChunkWriteErr up of
                       Some m \<Rightarrow> ((cache', objs), Some (ErrExt m))
                     | None \<Rightarrow>
                         (case ChunkCloseErr up of
                            Some m \<Rightarrow> ((cache', objs), Some (ErrExt m))
                          | None \<Rightarrow> ((cache', objs @ [(tag, buf)]), None))))))"

text \<open>
  The fan-out. Each datum is a task of an error group; the tasks run concurrently and
  merge their sub-stats under \<^verbatim>\<open>statsMutex\<close>, one at a time. The model runs the tasks
  one after the other, in the order in which they take the mutex, and stops at the first
  task that returns an error: the group cancels the others and \<^verbatim>\<open>eg.Wait()\<close> returns
  that error. The stats of a task that fails are merged before its error is looked at;
  its recovered tags are not appended. \<open>k\<close> counts the tasks.
\<close>

fun fanOut ::
  "PipelineInfo \<Rightarrow> TaskEnv \<Rightarrow> string \<Rightarrow> nat \<Rightarrow> (int \<times> Input list) list \<Rightarrow>
   DatumStats \<times> string list \<Rightarrow> (DatumStats \<times> string list) \<times> error option" where
  "fanOut pi env jobID k [] acc = (acc, None)"
| "fanOut pi env jobID k ((index, inputs) # ds) (stats, recoveredDatums) =
     (case NewLoggerErr env k of
        Some m \<Rightarrow> ((stats, recoveredDatums), Some (ErrExt m))
      | None \<Rightarrow>
          (let r = processDatum pi (DatumDriver env k) jobID index inputs;
               (stats', statsErr) = mergeStats stats (subStats r)
           in if retErr r \<noteq> None then ((stats', recoveredDatums), retErr r)
              else (let recoveredDatums' = recoveredDatums @ subRecovered r in
                    if statsErr \<noteq> None then ((stats', recoveredDatums'), statsErr)
                    else fanOut pi env jobID (Suc k) ds (stats', recoveredDatums'))))"

text \<open>
  \<^verbatim>\<open>forEachDatum\<close> reads the whole datum list before it calls the callback, and the
  callback only starts a task and returns nil: an error of \<^verbatim>\<open>forEachDatum\<close> is an error
  of \<^verbatim>\<open>GetObject\<close> or of the read, and no task has started then.
\<close>

definition zeroProcessStats :: ProcessStats where
  "zeroProcessStats = \<lparr>DownloadTime = None, ProcessTime = None, UploadTime = None,
     DownloadBytes = 0, UploadBytes = 0\<rparr>"

definition processDatums ::
  "PipelineInfo \<Rightarrow> TaskEnv \<Rightarrow> string \<Rightarrow> (DatumStats \<times> string list) \<times> error option" where
  "processDatums pi env jobID =
     (let acc = (emptyStats\<lparr>ProcessStats := Some zeroProcessStats\<rparr>, []) in
      case GetObjectErr env of
        Some m \<Rightarrow> (acc, Some (ErrExt m))
      | None \<Rightarrow>
          (case ReadDatums env of
             Inl m \<Rightarrow> (acc, Some (ErrExt m))
           | Inr allDatums \<Rightarrow> fanOut pi env jobID 0 allDatums acc))"

text \<open>
  The handler's result: the payload as the call leaves it (it is mutated in place), the
  error, and what has been published.
\<close>

record TaskResult =
  tData :: DatumData
  tErr :: "error option"
  tPublished :: Published

definition taskResult :: "DatumData \<Rightarrow> error option \<Rightarrow> Published \<Rightarrow> TaskResult" where
  "taskResult data err pub = \<lparr>tData = data, tErr = err, tPublished = pub\<rparr>"

text \<open>The publishing rules after the fan-out: the stats chunk, then the return.\<close>

definition publishStats ::
  "PipelineInfo \<Rightarrow> TaskEnv \<Rightarrow> string \<Rightarrow> string \<Rightarrow> DatumData \<Rightarrow> Published \<Rightarrow> TaskResult" where
  "publishStats pi env jobID subtaskID data pub =
     (if EnableStats pi
      then (case ChunkStatsCachesErr env of
              Some m \<Rightarrow> taskResult data (Some (ErrExt m)) pub
            | None \<Rightarrow>
                (let chunkStatsTag = jobChunkStatsTag (JobTagPrefix env) jobID subtaskID in
                 case uploadChunk (StatsUpload env) chunkStatsTag (chunkStatsCache pub) (objects pub) of
                   ((cache, objs), Some err) \<Rightarrow>
                     taskResult data (Some err) (pub\<lparr>chunkStatsCache := cache, objects := objs\<rparr>)
                 | ((cache, objs), None) \<Rightarrow>
                     taskResult
                       (data\<lparr>StatsHashtree := Some \<lparr>Address = WorkerIP env, Tag = chunkStatsTag\<rparr>\<rparr>)
                       None (pub\<lparr>chunkStatsCache := cache, objects := objs\<rparr>)))
      else taskResult data None pub)"

text \<open>The output chunk, published after the recovered list.\<close>

definition publishChunk ::
  "PipelineInfo \<Rightarrow> TaskEnv \<Rightarrow> string \<Rightarrow> string \<Rightarrow> DatumData \<Rightarrow> Published \<Rightarrow> TaskResult" where
  "publishChunk pi env jobID subtaskID data pub =
     (case ChunkCachesErr env of
        Some m \<Rightarrow> taskResult data (Some (ErrExt m)) pub
      | None \<Rightarrow>
          (let chunkTag = jobChunkTag (JobTagPrefix env) jobID subtaskID in
           case uploadChunk (OutputUpload env) chunkTag (chunkCache pub) (objects pub) of
             ((cache, objs), Some err) \<Rightarrow>
               taskResult data (Some err) (pub\<lparr>chunkCache := cache, objects := objs\<rparr>)
           | ((cache, objs), None) \<Rightarrow>
               publishStats pi env jobID subtaskID
                 (data\<lparr>ChunkHashtree := Some \<lparr>Address = WorkerIP env, Tag = chunkTag\<rparr>\<rparr>)
                 (pub\<lparr>chunkCache := cache, objects := objs\<rparr>)))"

definition publish ::
  "PipelineInfo \<Rightarrow> TaskEnv \<Rightarrow> string \<Rightarrow> string \<Rightarrow> DatumStats \<Rightarrow> string list \<Rightarrow> DatumData \<Rightarrow> TaskResult" where
  "publish pi env jobID subtaskID stats recoveredDatums data =
     (if DatumsFailed stats = 0 \<and> \<not> S3Out pi
      then (if recoveredDatums \<noteq> []
            then (let recoveredDatumsTag = jobRecoveredDatumsTag (JobTagPrefix env) jobID subtaskID in
                  case uploadRecoveredDatums env recoveredDatums recoveredDatumsTag nothingPublished of
                    (pub, Some err) \<Rightarrow> taskResult data (Some err) pub
                  | (pub, None) \<Rightarrow>
                      publishChunk pi env jobID subtaskID
                        (data\<lparr>RecoveredDatumsTag := recoveredDatumsTag\<rparr>) pub)
            else publishChunk pi env jobID subtaskID data nothingPublished)
      else publishStats pi env jobID subtaskID data nothingPublished)"

text \<open>
  \<^verbatim>\<open>handleDatumTask\<close>. \<open>jobID\<close> is \<^verbatim>\<open>logger.JobID()\<close>. \<^verbatim>\<open>driver.WithDatumCache\<close> is a
  scoped acquisition: it fails before it runs its callback or returns the callback's
  error. \<^verbatim>\<open>data.Stats\<close> is replaced by fresh stats before the fan-out and holds what the
  tasks merged into it also when the fan-out fails.
\<close>

definition handleDatumTask ::
  "PipelineInfo \<Rightarrow> TaskEnv \<Rightarrow> string \<Rightarrow> DatumData \<Rightarrow> string \<Rightarrow> TaskResult" where
  "handleDatumTask pi env jobID data subtaskID =
     (if (S3Inputs pi \<or> S3Out pi) \<and> CheckS3GatewayErr env \<noteq> None
      then taskResult data (map_option ErrExt (CheckS3GatewayErr env)) nothingPublished
      else (case WithDatumCacheErr env of
              Some m \<Rightarrow> taskResult data (Some (ErrExt m)) nothingPublished
            | None \<Rightarrow>
                (case processDatums pi env jobID of
                   ((stats, recoveredDatums), Some err) \<Rightarrow>
                     taskResult (data\<lparr>Stats := Some stats\<rparr>) (Some err) nothingPublished
                 | ((stats, recoveredDatums), None) \<Rightarrow>
                     publish pi env jobID subtaskID stats recoveredDatums (data\<lparr>Stats := Some stats\<rparr>))))"

section \<open>The subtask dispatcher\<close>

text \<open>
  A subtask is its id and its payload. The payload of a merge subtask: \<open>MergeJobID\<close> and
  \<open>MergeStats\<close> are the fields \<^verbatim>\<open>JobID\<close> and \<^verbatim>\<open>Stats\<close> of \<^verbatim>\<open>MergeData\<close> (renamed, since
  \<^verbatim>\<open>DatumData\<close> has fields of the same names).
\<close>

record Task =
  ID :: string
  Data :: string

record MergeData =
  MergeJobID :: string
  Shard :: int
  MergeStats :: bool
  Hashtrees :: "HashtreeInfo list"
  Parent :: "string option"
  Tree :: "string option"
  TreeSize :: nat

text \<open>
  The codecs of the two payloads are functions of another file of the package, and
  \<^verbatim>\<open>handleMergeTask\<close> is taken by what it does to the payload and the error it returns
  (\<open>MergeTask\<close>). A serializer returns a pair of the encoded payload and an error.
  \<^verbatim>\<open>status.withJob\<close> and \<^verbatim>\<open>logger.LogStep\<close> run their callback and return its error.
\<close>

record Codec =
  deserializeDatumData :: "string \<Rightarrow> string + DatumData"
  serializeDatumData :: "DatumData \<Rightarrow> string \<times> string option"
  deserializeMergeData :: "string \<Rightarrow> string + MergeData"
  serializeMergeData :: "MergeData \<Rightarrow> string \<times> string option"
  MergeTask :: "MergeData \<Rightarrow> MergeData \<times> error option"

definition Worker :: "PipelineInfo \<Rightarrow> TaskEnv \<Rightarrow> Codec \<Rightarrow> Task \<Rightarrow> Task \<times> error option" where
  "Worker pi env codec subtask =
     (case deserializeDatumData codec (Data subtask) of
        Inr datumData \<Rightarrow>
          (let r = handleDatumTask pi env (JobID datumData) datumData (ID subtask) in
           case tErr r of
             Some err \<Rightarrow> (subtask, Some err)
           | None \<Rightarrow>
               (case serializeDatumData codec (tData r) of
                  (encoded, err) \<Rightarrow> (subtask\<lparr>Data := encoded\<rparr>, map_option ErrExt err)))
      | Inl m \<Rightarrow>
          (case deserializeMergeData codec (Data subtask) of
             Inr mergeData \<Rightarrow>
               (case MergeTask codec mergeData of
                  (mergeData', Some err) \<Rightarrow> (subtask, Some err)
                | (mergeData', None) \<Rightarrow>
                    (case serializeMergeData codec mergeData' of
                       (encoded, err) \<Rightarrow> (subtask\<lparr>Data := encoded\<rparr>, map_option ErrExt err)))
           | Inl m' \<Rightarrow> (subtask, Some ErrUnrecognizedTaskFormat)))"

section \<open>Reading the results\<close>

text \<open>
  Notions the theorems below are stated with. \<open>counted\<close> is the sum of the four datum
  counters (an \<^verbatim>\<open>int64\<close> sum). \<open>statsMiss\<close> says that the cache probe of a datum finds
  its tag while stats are enabled and the fetch of its stats object fails, and
  \<open>missCount\<close> counts the datums of a subtask for which that is so (task \<open>k\<close> onwards).
  \<open>loopStart\<close> is the state in which \<^verbatim>\<open>processDatum\<close> enters the retry loop.
\<close>

definition counted :: "DatumStats \<Rightarrow> 64 word" where
  "counted s = DatumsProcessed s + DatumsSkipped s + DatumsFailed s + DatumsRecovered s"

definition statsMiss :: "PipelineInfo \<Rightarrow> Driver \<Rightarrow> Input list \<Rightarrow> bool" where
  "statsMiss pi drv inputs =
     (let tag = HashDatum drv (PipelineName pi) (Salt pi) inputs in
      InspectTag drv tag = None \<and> EnableStats pi \<and>
      (case GetTag drv (tag @ statsTagSuffix) of Inl m \<Rightarrow> True | Inr buf \<Rightarrow> False))"

fun missCount :: "PipelineInfo \<Rightarrow> TaskEnv \<Rightarrow> nat \<Rightarrow> (int \<times> Input list) list \<Rightarrow> nat" where
  "missCount pi env k [] = 0"
| "missCount pi env k ((index, inputs) # ds) =
     (if statsMiss pi (DatumDriver env k) inputs then 1 else 0) + missCount pi env (Suc k) ds"

definition loopStart :: "PipelineInfo \<Rightarrow> string \<Rightarrow> int \<Rightarrow> DatumState" where
  "loopStart pi jobID datumIndex =
     (if EnableStats pi
      then PutFile ''index'' (Sprint datumIndex) (initState\<lparr>statsTree := Some [(''job:'' @ jobID, [])]\<rparr>)
      else initState)"




section \<open>Example collaborators\<close>

text \<open>
  Concrete answers for the examples below: an object store in which every call succeeds,
  a user program that always exits with status 1, and a driver whose cache probe misses.
\<close>

definition okStore :: StoreCall where
  "okStore = \<lparr>PutObjectErr = None, InspectObjectErr = None, DecodeHashErr = None\<rparr>"

definition okWriter :: StatsWriter where
  "okWriter = \<lparr>MarshalToString = (\<lambda>ps. Inr ''{}''), StatsObject = okStore, LoggerClose = Inr None,
     LogsInspectErr = None, LogsDecodeErr = None, MergeTrees = Inr ''stats-tree'',
     PutObjectAsyncErr = None, ObjWriteErr = None, StatsCachePutErr = None, ObjCloseErr = None\<rparr>"

definition failingAttempt :: Attempt where
  "failingAttempt = \<lparr>WithDataErr = None, WithDataStats = None, WithActiveDataErr = None,
     RunUserCode = Some ''exit status 1'', RunUserErrorHandlingCode = None,
     UploadOutput = Inr ''out-tree'', CachePut = None\<rparr>"

definition missDriver :: Driver where
  "missDriver = \<lparr>HashDatum = (\<lambda>p s i. ''tag''), DatumID = (\<lambda>i. ''id''),
     InspectTag = (\<lambda>t. Some ''tag not found''), GetTag = (\<lambda>t. Inl ''tag not found''),
     HitCachePut = None, HitStatsCachePut = None, IndexObject = okStore,
     Attempts = (\<lambda>i. failingAttempt), CtxDone = (\<lambda>i. False), FailureObject = okStore,
     Writer = okWriter\<rparr>"

text \<open>A driver whose cache probe finds the datum's output but not its stats tree.\<close>

definition statsMissDriver :: Driver where
  "statsMissDriver = missDriver\<lparr>InspectTag := (\<lambda>t. None),
     GetTag := (\<lambda>t. if t = ''tag'' then Inr ''out-tree'' else Inl ''tag not found'')\<rparr>"

definition statsPipeline :: PipelineInfo where
  "statsPipeline = \<lparr>PipelineName = ''edges'', Salt = ''salt'', EnableStats = True, S3Out = False,
     S3Inputs = False, DatumTries = 3, ErrCmd = None\<rparr>"

text \<open>Stats for the examples of \<^verbatim>\<open>mergeStats\<close>.\<close>

definition subtaskStats :: DatumStats where
  "subtaskStats = emptyStats\<lparr>ProcessStats := Some (zeroProcessStats\<lparr>
       DownloadTime := Some \<lparr>Seconds = 1, Nanos = 600000000\<rparr>, DownloadBytes := 10\<rparr>),
     DatumsProcessed := 2\<rparr>"

definition failedDatumStats :: DatumStats where
  "failedDatumStats = emptyStats\<lparr>ProcessStats := Some (zeroProcessStats\<lparr>
       DownloadTime := Some \<lparr>Seconds = 0, Nanos = 700000000\<rparr>, DownloadBytes := 5\<rparr>),
     DatumsFailed := 1, FailedDatumID := ''id''\<rparr>"

definition mergedStats :: DatumStats where
  "mergedStats = \<lparr>ProcessStats = Some \<lparr>DownloadTime = Some \<lparr>Seconds = 2, Nanos = 300000000\<rparr>,
       ProcessTime = Some \<lparr>Seconds = 0, Nanos = 0\<rparr>, UploadTime = Some \<lparr>Seconds = 0, Nanos = 0\<rparr>,
       DownloadBytes = 15, UploadBytes = 0\<rparr>,
     DatumsProcessed = 2, DatumsSkipped = 0, DatumsFailed = 1, DatumsRecovered = 0,
     FailedDatumID = ''id''\<rparr>"

text \<open>
  Sub-stats of a processed datum whose download time is not a valid duration: 10^12
  seconds is beyond both the range of the protobuf message and the range of an
  \<^verbatim>\<open>int64\<close> of nanoseconds.
\<close>

definition badDurationStats :: DatumStats where
  "badDurationStats = emptyStats\<lparr>ProcessStats := Some (zeroProcessStats\<lparr>
       DownloadTime := Some \<lparr>Seconds = 1000000000000, Nanos = 0\<rparr>\<rparr>),
     DatumsProcessed := 1\<rparr>"

text \<open>
  A datum task whose object store and caches answer every call, on a subtask of one
  datum, and the payload it is called with.
\<close>

definition okUpload :: ChunkUpload where
  "okUpload = \<lparr>CacheMerge = Inr ''chunk'', ChunkCachePutErr = None, ChunkPutObjectAsyncErr = None,
     ChunkWriteErr = None, ChunkCloseErr = None\<rparr>"

definition oneDatumEnv :: "Driver \<Rightarrow> TaskEnv" where
  "oneDatumEnv drv = \<lparr>CheckS3GatewayErr = None, WithDatumCacheErr = None, GetObjectErr = None,
     ReadDatums = Inr [(0, [])], NewLoggerErr = (\<lambda>k. None), DatumDriver = (\<lambda>k. drv),
     WriteRecovered = (\<lambda>hashes. Inr (concat hashes)), PutRecoveredErr = None,
     ChunkCachesErr = None, OutputUpload = okUpload, ChunkStatsCachesErr = None,
     StatsUpload = okUpload, WorkerIP = ''10.0.0.7'', JobTagPrefix = (\<lambda>job. ''job-'' @ job)\<rparr>"

definition newDatumData :: DatumData where
  "newDatumData = \<lparr>JobID = ''j1'', Datums = ''datums-object'', OutputCommit = ''commit'',
     Stats = None, ChunkHashtree = None, RecoveredDatumsTag = [], StatsHashtree = None\<rparr>"

text \<open>A driver whose cache probe finds both the datum's output and its stats tree.\<close>

definition hitDriver :: Driver where
  "hitDriver = missDriver\<lparr>InspectTag := (\<lambda>t. None), GetTag := (\<lambda>t. Inr ''tree'')\<rparr>"

text \<open>Codecs that recognise one payload each, and a merge handler that sets the tree.\<close>

definition newMergeData :: MergeData where
  "newMergeData = \<lparr>MergeJobID = ''j1'', Shard = 0, MergeStats = False, Hashtrees = [],
     Parent = None, Tree = None, TreeSize = 0\<rparr>"

definition exampleCodec :: Codec where
  "exampleCodec = \<lparr>
     deserializeDatumData = (\<lambda>s. if s = ''datum'' then Inr newDatumData else Inl ''not DatumData''),
     serializeDatumData = (\<lambda>d. (''datum:'' @ (case ChunkHashtree d of Some h \<Rightarrow> Tag h | None \<Rightarrow> []), None)),
     deserializeMergeData = (\<lambda>s. if s = ''merge'' then Inr newMergeData else Inl ''not MergeData''),
     serializeMergeData = (\<lambda>m. (''merge:'' @ (case Tree m of Some t \<Rightarrow> t | None \<Rightarrow> []), None)),
     MergeTask = (\<lambda>m. (m\<lparr>Tree := Some ''tree'', TreeSize := 4\<rparr>, None))\<rparr>"




section \<open>Tag names\<close>

text \<open>
  C9. The tag-naming functions produce exactly the specified strings for all job and
  subtask ids: the job prefix (the same prefix function in all three), then
  \<open>-recovered-\<close>, \<open>-chunk-stats-\<close> or \<open>-chunk-\<close>, then the subtask id; and the tag of
  a datum's stats tree is the datum tag followed by the fixed suffix \<open>_stats\<close>.
\<close>

theorem tag_names:
  "jobRecoveredDatumsTag jobTagPrefix job sub = jobTagPrefix job @ ''-recovered-'' @ sub \<and>
   jobChunkStatsTag jobTagPrefix job sub = jobTagPrefix job @ ''-chunk-stats-'' @ sub \<and>
   jobChunkTag jobTagPrefix job sub = jobTagPrefix job @ ''-chunk-'' @ sub \<and>
   tag @ statsTagSuffix = tag @ ''_stats''"
  by (simp add: jobRecoveredDatumsTag_def jobChunkStatsTag_def jobChunkTag_def
      sprintfEnd_def statsTagSuffix_def)

section \<open>The cache probe\<close>

lemma cacheHit_stats_miss:
  assumes "GetTag drv tag = Inr buf" and "HitCachePut drv = None" and "EnableStats pi"
    and "GetTag drv (tag @ statsTagSuffix) = Inl m"
  shows "cacheHit pi drv tag = result emptyStats [] None (initState\<lparr>datumCache := [(None, buf)]\<rparr>)"
  using assms by (simp add: cacheHit_def Let_def initState_def)

text \<open>
  C1 (what the code does). When the cache probe finds the datum's tag, the output is
  fetched and cached, stats are enabled and the fetch of the stats object tagged
  \<open>tag + "_stats"\<close> fails, \<^verbatim>\<open>processDatum\<close> returns a nil error, but the sub-stats it
  returns have \<open>DatumsSkipped = 0\<close>: the early return comes before the increment, and no
  other counter is incremented either.
\<close>

theorem processDatum_stats_miss_not_counted:
  assumes "tag = HashDatum drv (PipelineName pi) (Salt pi) inputs"
    and "InspectTag drv tag = None"
    and "GetTag drv tag = Inr buf" and "HitCachePut drv = None"
    and "EnableStats pi"
    and "GetTag drv (tag @ ''_stats'') = Inl m"
  shows "retErr (processDatum pi drv jobID datumIndex inputs) = None \<and>
         DatumsSkipped (subStats (processDatum pi drv jobID datumIndex inputs)) = 0 \<and>
         subStats (processDatum pi drv jobID datumIndex inputs) = emptyStats"
proof -
  have "processDatum pi drv jobID datumIndex inputs = cacheHit pi drv tag"
    using assms(1,2) by (simp add: processDatum_def Let_def)
  moreover have "GetTag drv (tag @ statsTagSuffix) = Inl m"
    using assms(6) by (simp add: statsTagSuffix_def)
  ultimately show ?thesis
    using cacheHit_stats_miss [OF assms(3,4,5)]
    by (simp add: result_def emptyStats_def)
qed

theorem processDatum_stats_miss_example:
  "retErr (processDatum statsPipeline statsMissDriver ''job'' 0 []) = None \<and>
   DatumsSkipped (subStats (processDatum statsPipeline statsMissDriver ''job'' 0 [])) = 0 \<and>
   subStats (processDatum statsPipeline statsMissDriver ''job'' 0 []) = emptyStats"
  using processDatum_stats_miss_not_counted
    [of "''tag''" statsMissDriver statsPipeline "[]" "''out-tree''" "''tag not found''" "''job''" 0]
  by (simp add: statsMissDriver_def missDriver_def statsPipeline_def emptyStats_def)

section \<open>Merging stats\<close>

lemma sint64_of_int:
  "- 9223372036854775808 \<le> k \<Longrightarrow> k < 9223372036854775808 \<Longrightarrow> sint (word_of_int k :: 64 word) = k"
  by (simp add: signed_of_int signed_take_bit_int_eq_self)

lemma sint32_of_int:
  "- 2147483648 \<le> k \<Longrightarrow> k < 2147483648 \<Longrightarrow> sint (word_of_int k :: 32 word) = k"
  by (simp add: signed_of_int signed_take_bit_int_eq_self)

lemma sint64_range: "- 9223372036854775808 \<le> sint (d :: 64 word) \<and> sint d < 9223372036854775808"
  using sint_ge [of d] sint_lt [of d] by simp

lemma sdiv_nonneg: "0 \<le> (n::int) \<Longrightarrow> n sdiv 1000000000 = n div 1000000000"
  by (simp add: signed_divide_int_def sgn_if)

lemma sdiv_neg: "(n::int) < 0 \<Longrightarrow> n sdiv 1000000000 = - ((- n) div 1000000000)"
  by (simp add: signed_divide_int_def sgn_if)

lemma trunc_nonneg:
  fixes n :: int
  assumes "0 \<le> n"
  shows "0 \<le> n sdiv 1000000000 \<and> 0 \<le> n - n sdiv 1000000000 * 1000000000 \<and>
    n - n sdiv 1000000000 * 1000000000 < 1000000000 \<and> n sdiv 1000000000 * 1000000000 \<le> n"
proof -
  have s: "n sdiv 1000000000 = n div 1000000000" using assms by (rule sdiv_nonneg)
  have "n = n div 1000000000 * 1000000000 + n mod 1000000000" by simp
  moreover have "0 \<le> n mod 1000000000" "n mod 1000000000 < 1000000000" by simp_all
  moreover have "0 \<le> n div 1000000000" using assms by simp
  ultimately show ?thesis
    unfolding s by linarith
qed

lemma trunc_neg:
  fixes n :: int
  assumes "n < 0"
  shows "n sdiv 1000000000 \<le> 0 \<and> n - n sdiv 1000000000 * 1000000000 \<le> 0 \<and>
    - 1000000000 < n - n sdiv 1000000000 * 1000000000 \<and> n \<le> n sdiv 1000000000 * 1000000000"
proof -
  have s: "n sdiv 1000000000 = - ((- n) div 1000000000)" using assms by (rule sdiv_neg)
  have "- n = (- n) div 1000000000 * 1000000000 + (- n) mod 1000000000" by simp
  moreover have "0 \<le> (- n) mod 1000000000" "(- n) mod 1000000000 < 1000000000" by simp_all
  moreover have "0 \<le> (- n) div 1000000000" using assms by simp
  ultimately show ?thesis
    unfolding s by linarith
qed

lemma sdiv_mult_same:
  fixes s :: int
  shows "(s * 1000000000) sdiv 1000000000 = s"
  by (simp add: signed_divide_int_def sgn_if abs_mult zero_less_mult_iff mult_less_0_iff)

text \<open>
  Every \<^verbatim>\<open>time.Duration\<close> survives the trip through the protobuf message: the message
  \<^verbatim>\<open>DurationProto\<close> builds is valid and converts back to the same nanoseconds.
\<close>

lemma DurationFromProto_DurationProto: "DurationFromProto (DurationProto d) = Inr d"
proof -
  define n where "n = sint d"
  define s where "s = n sdiv 1000000000"
  define r where "r = n - s * 1000000000"
  have nr: "- 9223372036854775808 \<le> n" "n < 9223372036854775808"
    using sint64_range [of d] by (simp_all add: n_def)
  have facts: "\<bar>r\<bar> < 1000000000 \<and> (s < 0 \<longrightarrow> r \<le> 0) \<and> (0 < s \<longrightarrow> 0 \<le> r) \<and>
     - 9223372036854775808 \<le> s * 1000000000 \<and> s * 1000000000 < 9223372036854775808 \<and>
     (r \<noteq> 0 \<longrightarrow> (n < 0) = (r < 0)) \<and> - 9223372037 < s \<and> s < 9223372037"
  proof (cases "0 \<le> n")
    case True
    from trunc_nonneg [OF True] nr show ?thesis unfolding r_def s_def by linarith
  next
    case False
    then have "n < 0" by simp
    from trunc_neg [OF this] nr \<open>n < 0\<close> show ?thesis unfolding r_def s_def by linarith
  qed
  have ss: "sint (word_of_int s :: 64 word) = s"
    using facts by (intro sint64_of_int) linarith+
  have sr: "sint (word_of_int r :: 32 word) = r"
    using facts by (intro sint32_of_int) linarith+
  have sm: "sint (word_of_int (s * 1000000000) :: 64 word) = s * 1000000000"
    using facts by (intro sint64_of_int) linarith+
  have sm': "sint (word_of_int s * 1000000000 :: 64 word) = s * 1000000000"
    using sm by simp
  have r0: "(word_of_int r :: 32 word) = 0 \<longleftrightarrow> r = 0"
    using sr by (metis sint_0 word_of_int_0)
  have whole: "(word_of_int (s * 1000000000) + word_of_int r :: 64 word) = d"
    by (simp add: r_def n_def flip: wi_hom_add)
  have whole0: "r = 0 \<Longrightarrow> (word_of_int (s * 1000000000) :: 64 word) = d"
    using whole by simp
  have dp: "DurationProto d = \<lparr>Seconds = word_of_int s, Nanos = word_of_int r\<rparr>"
    by (simp add: DurationProto_def Let_def n_def s_def r_def)
  have v: "validateDuration \<lparr>Seconds = word_of_int s, Nanos = word_of_int r\<rparr> = None"
    using facts by (simp add: validateDuration_def ss sr minSeconds_def maxSeconds_def) linarith
  show ?thesis
    using facts whole whole0
    by (auto simp add: dp DurationFromProto_def v ss sr sm sm' r0 Let_def sdiv_mult_same n_def)
qed

lemma plusDuration_cases:
  "plusDuration a b = (c, e) \<Longrightarrow> (e = None \<and> durationSum a b c) \<or> (e \<noteq> None \<and> c = None)"
  by (auto simp: plusDuration_def durationSum_def nanoseconds_def DurationFromProto_DurationProto
      split: option.splits sum.splits)

lemma mergeCounts_fields:
  "DatumsProcessed (mergeCounts x y) = DatumsProcessed x + DatumsProcessed y"
  "DatumsSkipped (mergeCounts x y) = DatumsSkipped x + DatumsSkipped y"
  "DatumsFailed (mergeCounts x y) = DatumsFailed x + DatumsFailed y"
  "DatumsRecovered (mergeCounts x y) = DatumsRecovered x + DatumsRecovered y"
  "FailedDatumID (mergeCounts x y) = (if FailedDatumID x = [] then FailedDatumID y else FailedDatumID x)"
  "ProcessStats (mergeCounts x y) = ProcessStats x"
  by (simp_all add: mergeCounts_def)

lemma mergeStats_ok_nil:
  assumes "mergeStats x y = (x', None)" and "ProcessStats y = None"
  shows "x' = mergeCounts x y"
  using assms by (simp add: mergeStats_def)

lemma mergeStats_ok_some:
  assumes "mergeStats x y = (x', None)" and "ProcessStats y = Some yps"
  shows "\<exists>xps xps'. ProcessStats x = Some xps \<and> x' = mergeCounts (x\<lparr>ProcessStats := Some xps'\<rparr>) y \<and>
           durationSum (DownloadTime xps) (DownloadTime yps) (DownloadTime xps') \<and>
           durationSum (ProcessTime xps) (ProcessTime yps) (ProcessTime xps') \<and>
           durationSum (UploadTime xps) (UploadTime yps) (UploadTime xps') \<and>
           DownloadBytes xps' = DownloadBytes xps + DownloadBytes yps \<and>
           UploadBytes xps' = UploadBytes xps + UploadBytes yps"
proof (cases "ProcessStats x")
  case None
  with assms show ?thesis by (simp add: mergeStats_def)
next
  case (Some xps)
  obtain dt e1 where p1: "plusDuration (DownloadTime xps) (DownloadTime yps) = (dt, e1)" by fastforce
  obtain pt e2 where p2: "plusDuration (ProcessTime xps) (ProcessTime yps) = (pt, e2)" by fastforce
  obtain ut e3 where p3: "plusDuration (UploadTime xps) (UploadTime yps) = (ut, e3)" by fastforce
  from assms Some p1 p2 p3 have e: "e1 = None" "e2 = None" "e3 = None"
    by (auto simp: mergeStats_def Let_def split: if_splits)
  with plusDuration_cases [OF p1] plusDuration_cases [OF p2] plusDuration_cases [OF p3]
  have s: "durationSum (DownloadTime xps) (DownloadTime yps) dt"
    "durationSum (ProcessTime xps) (ProcessTime yps) pt"
    "durationSum (UploadTime xps) (UploadTime yps) ut" by simp_all
  from assms Some p1 p2 p3 e
  have "x' = mergeCounts (x\<lparr>ProcessStats := Some (xps\<lparr>DownloadTime := dt, ProcessTime := pt, UploadTime := ut,
      DownloadBytes := DownloadBytes xps + DownloadBytes yps, UploadBytes := UploadBytes xps + UploadBytes yps\<rparr>)\<rparr>) y"
    by (simp add: mergeStats_def Let_def)
  with Some s show ?thesis by fastforce
qed

text \<open>
  An error of \<^verbatim>\<open>mergeStats\<close> leaves the counters and the failed datum id of \<open>x\<close> as they
  were: the function returns before it reaches them.
\<close>

lemma mergeStats_error_keeps_counts:
  assumes "mergeStats x y = (x', Some err)"
  shows "DatumsProcessed x' = DatumsProcessed x \<and> DatumsSkipped x' = DatumsSkipped x \<and>
         DatumsFailed x' = DatumsFailed x \<and> DatumsRecovered x' = DatumsRecovered x \<and>
         FailedDatumID x' = FailedDatumID x"
  using assms
  by (auto simp: mergeStats_def Let_def split: option.splits prod.splits if_splits)

lemma mergeStats_nil_error_adds:
  assumes "mergeStats x y = (x', None)"
  shows "DatumsProcessed x' = DatumsProcessed x + DatumsProcessed y \<and>
         DatumsSkipped x' = DatumsSkipped x + DatumsSkipped y \<and>
         DatumsFailed x' = DatumsFailed x + DatumsFailed y \<and>
         DatumsRecovered x' = DatumsRecovered x + DatumsRecovered y \<and>
         FailedDatumID x' = (if FailedDatumID x = [] then FailedDatumID y else FailedDatumID x) \<and>
         (case ProcessStats y of
            None \<Rightarrow> ProcessStats x' = ProcessStats x
          | Some yps \<Rightarrow>
              (case (ProcessStats x, ProcessStats x') of
                 (Some xps, Some xps') \<Rightarrow>
                   durationSum (DownloadTime xps) (DownloadTime yps) (DownloadTime xps') \<and>
                   durationSum (ProcessTime xps) (ProcessTime yps) (ProcessTime xps') \<and>
                   durationSum (UploadTime xps) (UploadTime yps) (UploadTime xps') \<and>
                   DownloadBytes xps' = DownloadBytes xps + DownloadBytes yps \<and>
                   UploadBytes xps' = UploadBytes xps + UploadBytes yps
               | _ \<Rightarrow> False))"
proof (cases "ProcessStats y")
  case None
  from mergeStats_ok_nil [OF assms None] None show ?thesis
    by (simp add: mergeCounts_fields)
next
  case (Some yps)
  from mergeStats_ok_some [OF assms Some] Some show ?thesis
    by (auto simp: mergeCounts_fields)
qed

lemma plusDuration_error:
  "snd (plusDuration a b) = firstError [conversionError a, conversionError b]"
  by (cases a; cases b)
    (auto simp: plusDuration_def conversionError_def nanoseconds_def split: sum.splits)

text \<open>The error \<^verbatim>\<open>mergeStats\<close> returns is the one its arguments determine.\<close>

lemma mergeStats_error: "snd (mergeStats x y) = mergeError x y"
proof (cases "ProcessStats y")
  case None
  then show ?thesis by (simp add: mergeStats_def mergeError_def)
next
  case (Some yps)
  show ?thesis
  proof (cases "ProcessStats x")
    case None
    with Some show ?thesis by (simp add: mergeStats_def mergeError_def)
  next
    case xs: (Some xps)
    obtain dt e1 where p1: "plusDuration (DownloadTime xps) (DownloadTime yps) = (dt, e1)" by fastforce
    obtain pt e2 where p2: "plusDuration (ProcessTime xps) (ProcessTime yps) = (pt, e2)" by fastforce
    obtain ut e3 where p3: "plusDuration (UploadTime xps) (UploadTime yps) = (ut, e3)" by fastforce
    from p1 p2 p3 plusDuration_error [of "DownloadTime xps" "DownloadTime yps"]
      plusDuration_error [of "ProcessTime xps" "ProcessTime yps"]
      plusDuration_error [of "UploadTime xps" "UploadTime yps"]
    have e: "e1 = firstError [conversionError (DownloadTime xps), conversionError (DownloadTime yps)]"
      "e2 = firstError [conversionError (ProcessTime xps), conversionError (ProcessTime yps)]"
      "e3 = firstError [conversionError (UploadTime xps), conversionError (UploadTime yps)]"
      by simp_all
    have "snd (mergeStats x y) = (case e1 of Some err \<Rightarrow> Some err | None \<Rightarrow>
        (case e2 of Some err \<Rightarrow> Some err | None \<Rightarrow> e3))"
      using Some xs p1 p2 p3
      by (cases e1; cases e2; cases e3) (simp_all add: mergeStats_def Let_def)
    also have "\<dots> = mergeError x y"
      unfolding mergeError_def using Some xs
      by (cases "conversionError (DownloadTime xps)"; cases "conversionError (DownloadTime yps)";
          cases "conversionError (ProcessTime xps)"; cases "conversionError (ProcessTime yps)";
          cases "conversionError (UploadTime xps)"; cases "conversionError (UploadTime yps)")
        (simp_all add: e)
    finally show ?thesis .
  qed
qed

text \<open>
  C6, as amended. For all \<open>x\<close> and \<open>y\<close> that can be merged (\<open>y.ProcessStats\<close> is nil, or
  \<open>x.ProcessStats\<close> is set too and every duration of the two process stats converts),
  \<^verbatim>\<open>mergeStats(x, y)\<close> returns a nil error, adds the four counters of \<open>y\<close> into \<open>x\<close>, sets
  \<open>x.FailedDatumID\<close> to \<open>y.FailedDatumID\<close> exactly when \<open>x.FailedDatumID\<close> was empty, and,
  when \<open>y.ProcessStats\<close> is set, leaves in \<open>x.ProcessStats\<close> the sums of the three durations
  (as 64-bit nanoseconds, a nil duration counting as zero) and of the two byte counts;
  with \<open>y.ProcessStats\<close> nil the process stats of \<open>x\<close> are unchanged. For all other \<open>x\<close> and
  \<open>y\<close> the call fails with the error of the first duration that does not convert (it
  panics when only \<open>x.ProcessStats\<close> is nil), and the counters and the failed datum id of
  \<open>x\<close> are unchanged.
\<close>

theorem mergeStats_adds:
  "(mergeError x y = None \<longrightarrow>
      snd (mergeStats x y) = None \<and>
      DatumsProcessed (fst (mergeStats x y)) = DatumsProcessed x + DatumsProcessed y \<and>
      DatumsSkipped (fst (mergeStats x y)) = DatumsSkipped x + DatumsSkipped y \<and>
      DatumsFailed (fst (mergeStats x y)) = DatumsFailed x + DatumsFailed y \<and>
      DatumsRecovered (fst (mergeStats x y)) = DatumsRecovered x + DatumsRecovered y \<and>
      FailedDatumID (fst (mergeStats x y)) =
        (if FailedDatumID x = [] then FailedDatumID y else FailedDatumID x) \<and>
      (case ProcessStats y of
         None \<Rightarrow> ProcessStats (fst (mergeStats x y)) = ProcessStats x
       | Some yps \<Rightarrow>
           (case (ProcessStats x, ProcessStats (fst (mergeStats x y))) of
              (Some xps, Some xps') \<Rightarrow>
                durationSum (DownloadTime xps) (DownloadTime yps) (DownloadTime xps') \<and>
                durationSum (ProcessTime xps) (ProcessTime yps) (ProcessTime xps') \<and>
                durationSum (UploadTime xps) (UploadTime yps) (UploadTime xps') \<and>
                DownloadBytes xps' = DownloadBytes xps + DownloadBytes yps \<and>
                UploadBytes xps' = UploadBytes xps + UploadBytes yps
            | _ \<Rightarrow> False))) \<and>
   (mergeError x y \<noteq> None \<longrightarrow>
      snd (mergeStats x y) = mergeError x y \<and>
      DatumsProcessed (fst (mergeStats x y)) = DatumsProcessed x \<and>
      DatumsSkipped (fst (mergeStats x y)) = DatumsSkipped x \<and>
      DatumsFailed (fst (mergeStats x y)) = DatumsFailed x \<and>
      DatumsRecovered (fst (mergeStats x y)) = DatumsRecovered x \<and>
      FailedDatumID (fst (mergeStats x y)) = FailedDatumID x)"
proof (cases "mergeError x y")
  case None
  with mergeStats_error [of x y] have "mergeStats x y = (fst (mergeStats x y), None)"
    by (simp add: prod_eq_iff)
  from mergeStats_nil_error_adds [OF this] None mergeStats_error [of x y] show ?thesis
    by simp
next
  case (Some err)
  with mergeStats_error [of x y] have "mergeStats x y = (fst (mergeStats x y), Some err)"
    by (simp add: prod_eq_iff)
  from mergeStats_error_keeps_counts [OF this] Some mergeStats_error [of x y] show ?thesis
    by simp
qed

theorem mergeStats_adds_witness:
  "mergeError subtaskStats failedDatumStats = None \<and>
   mergeStats subtaskStats failedDatumStats = (mergedStats, None) \<and>
   DatumsProcessed (fst (mergeStats subtaskStats failedDatumStats)) = 2 \<and>
   DatumsFailed (fst (mergeStats subtaskStats failedDatumStats)) = 1 \<and>
   FailedDatumID (fst (mergeStats subtaskStats failedDatumStats)) = ''id'' \<and>
   durationSum (Some \<lparr>Seconds = 1, Nanos = 600000000\<rparr>) (Some \<lparr>Seconds = 0, Nanos = 700000000\<rparr>)
     (Some \<lparr>Seconds = 2, Nanos = 300000000\<rparr>) \<and>
   mergeError subtaskStats badDurationStats = Some (ErrExt ''duration: seconds out of range'') \<and>
   snd (mergeStats subtaskStats badDurationStats) = Some (ErrExt ''duration: seconds out of range'') \<and>
   DatumsProcessed (fst (mergeStats subtaskStats badDurationStats)) = 2"
proof -
  have ok: "mergeError subtaskStats failedDatumStats = None"
    by (simp add: mergeError_def conversionError_def nanoseconds_def DurationFromProto_def
        validateDuration_def minSeconds_def maxSeconds_def Let_def
        subtaskStats_def failedDatumStats_def emptyStats_def zeroProcessStats_def
        signed_divide_int_def)
  have bad: "mergeError subtaskStats badDurationStats = Some (ErrExt ''duration: seconds out of range'')"
    by (simp add: mergeError_def conversionError_def nanoseconds_def DurationFromProto_def
        validateDuration_def minSeconds_def maxSeconds_def Let_def
        subtaskStats_def badDurationStats_def emptyStats_def zeroProcessStats_def
        signed_divide_int_def)
  have run: "mergeStats subtaskStats failedDatumStats = (mergedStats, None)"
    by (simp add: mergeStats_def mergeCounts_def plusDuration_def DurationFromProto_def
        DurationProto_def validateDuration_def minSeconds_def maxSeconds_def Let_def
        subtaskStats_def failedDatumStats_def mergedStats_def emptyStats_def zeroProcessStats_def
        signed_divide_int_def)
  from mergeStats_adds [of subtaskStats failedDatumStats] ok run
  have one: "DatumsProcessed (fst (mergeStats subtaskStats failedDatumStats)) = 2 \<and>
      DatumsFailed (fst (mergeStats subtaskStats failedDatumStats)) = 1 \<and>
      FailedDatumID (fst (mergeStats subtaskStats failedDatumStats)) = ''id'' \<and>
      durationSum (Some \<lparr>Seconds = 1, Nanos = 600000000\<rparr>) (Some \<lparr>Seconds = 0, Nanos = 700000000\<rparr>)
        (Some \<lparr>Seconds = 2, Nanos = 300000000\<rparr>)"
    by (simp add: subtaskStats_def failedDatumStats_def mergedStats_def emptyStats_def
        zeroProcessStats_def)
  from mergeStats_adds [of subtaskStats badDurationStats] bad
  have two: "snd (mergeStats subtaskStats badDurationStats) = Some (ErrExt ''duration: seconds out of range'') \<and>
      DatumsProcessed (fst (mergeStats subtaskStats badDurationStats)) = 2"
    by (simp add: subtaskStats_def emptyStats_def)
  from ok bad run one two show ?thesis by simp
qed

text \<open>
  C6 as stated fails: merging the sub-stats of a processed datum whose download time is
  not a valid duration returns an error, and the datum is not added to
  \<open>DatumsProcessed\<close>.
\<close>

theorem mergeStats_invalid_duration:
  "snd (mergeStats subtaskStats badDurationStats) = Some (ErrExt ''duration: seconds out of range'') \<and>
   DatumsProcessed (fst (mergeStats subtaskStats badDurationStats)) = 2 \<and>
   DatumsProcessed subtaskStats + DatumsProcessed badDurationStats = 3"
  by (simp add: mergeStats_def mergeCounts_def plusDuration_def DurationFromProto_def
      validateDuration_def minSeconds_def maxSeconds_def Let_def
      subtaskStats_def badDurationStats_def emptyStats_def zeroProcessStats_def
      signed_divide_int_def)

section \<open>Uploading the recovered datums\<close>

text \<open>
  C5 (what the code does). When writing the \<^verbatim>\<open>RecoveredDatums\<close> message to the buffer
  fails, \<^verbatim>\<open>uploadRecoveredDatums\<close> returns nil, not the error, and uploads nothing.
\<close>

theorem uploadRecoveredDatums_swallows_write_error:
  assumes "WriteRecovered env recoveredDatums = Inl m"
  shows "uploadRecoveredDatums env recoveredDatums tag pub = (pub, None)"
  using assms by (simp add: uploadRecoveredDatums_def)

theorem uploadRecoveredDatums_swallows_write_error_example:
  "uploadRecoveredDatums
     ((oneDatumEnv missDriver)\<lparr>WriteRecovered := (\<lambda>hashes. Inl ''proto: marshal failed'')\<rparr>)
     [''tag''] ''job-j1-recovered-s1'' nothingPublished = (nothingPublished, None)"
  using uploadRecoveredDatums_swallows_write_error
    [of "(oneDatumEnv missDriver)\<lparr>WriteRecovered := (\<lambda>hashes. Inl ''proto: marshal failed'')\<rparr>"
        "[''tag'']" "''proto: marshal failed''" "''job-j1-recovered-s1''" nothingPublished]
  by simp

section \<open>The dispatcher\<close>

text \<open>
  C7. The dispatcher first decodes the payload as \<^verbatim>\<open>DatumData\<close> and, when that
  succeeds, runs the datum handler (whatever the merge decoder would say); otherwise it
  decodes it as \<^verbatim>\<open>MergeData\<close> and, when that succeeds, runs the merge handler; when both
  decodes fail it returns the error "worker task format unrecognized". When the handler
  fails its error is returned and the subtask is left as it was; when it succeeds the
  payload the handler mutated is encoded again and stored in the subtask, and the
  encoder's error is returned.
\<close>

theorem Worker_routes:
  "(deserializeDatumData codec (Data subtask) = Inr datumData \<longrightarrow>
      (let r = handleDatumTask pi env (JobID datumData) datumData (ID subtask) in
       case tErr r of
         Some err \<Rightarrow> Worker pi env codec subtask = (subtask, Some err)
       | None \<Rightarrow>
           Worker pi env codec subtask =
             (subtask\<lparr>Data := fst (serializeDatumData codec (tData r))\<rparr>,
              map_option ErrExt (snd (serializeDatumData codec (tData r)))))) \<and>
   (deserializeDatumData codec (Data subtask) = Inl m \<and>
    deserializeMergeData codec (Data subtask) = Inr mergeData \<longrightarrow>
      (case MergeTask codec mergeData of
         (mergeData', Some err) \<Rightarrow> Worker pi env codec subtask = (subtask, Some err)
       | (mergeData', None) \<Rightarrow>
           Worker pi env codec subtask =
             (subtask\<lparr>Data := fst (serializeMergeData codec mergeData')\<rparr>,
              map_option ErrExt (snd (serializeMergeData codec mergeData'))))) \<and>
   (deserializeDatumData codec (Data subtask) = Inl m \<and>
    deserializeMergeData codec (Data subtask) = Inl m' \<longrightarrow>
      Worker pi env codec subtask = (subtask, Some ErrUnrecognizedTaskFormat))"
  by (auto simp: Worker_def Let_def split: option.splits prod.splits)

theorem Worker_routes_witness:
  "Worker statsPipeline (oneDatumEnv hitDriver) exampleCodec \<lparr>ID = ''s1'', Data = ''datum''\<rparr> =
     (\<lparr>ID = ''s1'', Data = ''datum:job-j1-chunk-s1''\<rparr>, None) \<and>
   Worker statsPipeline (oneDatumEnv hitDriver) exampleCodec \<lparr>ID = ''s2'', Data = ''merge''\<rparr> =
     (\<lparr>ID = ''s2'', Data = ''merge:tree''\<rparr>, None) \<and>
   Worker statsPipeline (oneDatumEnv hitDriver) exampleCodec \<lparr>ID = ''s3'', Data = ''junk''\<rparr> =
     (\<lparr>ID = ''s3'', Data = ''junk''\<rparr>, Some ErrUnrecognizedTaskFormat)"
proof -
  have run: "handleDatumTask statsPipeline (oneDatumEnv hitDriver) ''j1'' newDatumData ''s1'' =
      \<lparr>tData = newDatumData\<lparr>
         Stats := Some (emptyStats\<lparr>ProcessStats := Some zeroProcessStats, DatumsSkipped := 1\<rparr>),
         ChunkHashtree := Some \<lparr>Address = ''10.0.0.7'', Tag = ''job-j1-chunk-s1''\<rparr>,
         StatsHashtree := Some \<lparr>Address = ''10.0.0.7'', Tag = ''job-j1-chunk-stats-s1''\<rparr>\<rparr>,
       tErr = None,
       tPublished = \<lparr>objects = [(''job-j1-chunk-s1'', ''chunk''), (''job-j1-chunk-stats-s1'', ''chunk'')],
         chunkCache = [(''job-j1-chunk-s1'', ''chunk'')],
         chunkStatsCache = [(''job-j1-chunk-stats-s1'', ''chunk'')]\<rparr>\<rparr>"
    by code_simp
  have datum: "deserializeDatumData exampleCodec (Data \<lparr>ID = ''s1'', Data = ''datum''\<rparr>) = Inr newDatumData"
    by (simp add: exampleCodec_def)
  have merge: "deserializeDatumData exampleCodec (Data \<lparr>ID = ''s2'', Data = ''merge''\<rparr>) = Inl ''not DatumData'' \<and>
      deserializeMergeData exampleCodec (Data \<lparr>ID = ''s2'', Data = ''merge''\<rparr>) = Inr newMergeData"
    by (simp add: exampleCodec_def)
  have junk: "deserializeDatumData exampleCodec (Data \<lparr>ID = ''s3'', Data = ''junk''\<rparr>) = Inl ''not DatumData'' \<and>
      deserializeMergeData exampleCodec (Data \<lparr>ID = ''s3'', Data = ''junk''\<rparr>) = Inl ''not MergeData''"
    by (simp add: exampleCodec_def)
  from datum run
    Worker_routes [of exampleCodec "\<lparr>ID = ''s1'', Data = ''datum''\<rparr>" newDatumData statsPipeline
      "oneDatumEnv hitDriver"]
  have one: "Worker statsPipeline (oneDatumEnv hitDriver) exampleCodec \<lparr>ID = ''s1'', Data = ''datum''\<rparr> =
     (\<lparr>ID = ''s1'', Data = ''datum:job-j1-chunk-s1''\<rparr>, None)"
    by (simp add: newDatumData_def exampleCodec_def)
  from merge
    Worker_routes [of exampleCodec "\<lparr>ID = ''s2'', Data = ''merge''\<rparr>" _ statsPipeline
      "oneDatumEnv hitDriver" "''not DatumData''" newMergeData]
  have two: "Worker statsPipeline (oneDatumEnv hitDriver) exampleCodec \<lparr>ID = ''s2'', Data = ''merge''\<rparr> =
     (\<lparr>ID = ''s2'', Data = ''merge:tree''\<rparr>, None)"
    by (simp add: newMergeData_def exampleCodec_def)
  from junk
    Worker_routes [of exampleCodec "\<lparr>ID = ''s3'', Data = ''junk''\<rparr>" _ statsPipeline
      "oneDatumEnv hitDriver" "''not DatumData''" _ "''not MergeData''"]
  have three: "Worker statsPipeline (oneDatumEnv hitDriver) exampleCodec \<lparr>ID = ''s3'', Data = ''junk''\<rparr> =
     (\<lparr>ID = ''s3'', Data = ''junk''\<rparr>, Some ErrUnrecognizedTaskFormat)"
    by simp
  from one two three show ?thesis by simp
qed

section \<open>Publishing after the fan-out\<close>
















section \<open>Counting the datums of a subtask\<close>

lemma writeStats_subStats:
  "subStats (deferredWriteStats drv tag r) = subStats r \<and>
   subRecovered (deferredWriteStats drv tag r) = subRecovered r"
  by (simp add: deferredWriteStats_def split: prod.splits)

lemma classify_counted: "counted (subStats (classify tag datumID r)) = 1"
  by (simp add: classify_def counted_def result_def emptyStats_def Let_def)

lemma cacheHit_counted:
  assumes "retErr (cacheHit pi drv tag) = None"
  shows "counted (subStats (cacheHit pi drv tag)) =
           (if EnableStats pi \<and> (case GetTag drv (tag @ statsTagSuffix) of Inl m \<Rightarrow> True | Inr buf \<Rightarrow> False)
            then 0 else 1)"
  using assms
  by (auto simp: cacheHit_def counted_def result_def emptyStats_def Let_def
      split: sum.splits option.splits)

text \<open>
  A call of \<^verbatim>\<open>processDatum\<close> that returns a nil error has incremented exactly one of
  the four counters by one, except on the stats-miss path of the cache probe, where it
  has incremented none.
\<close>

lemma processDatum_counted:
  assumes "retErr (processDatum pi drv jobID datumIndex inputs) = None"
  shows "counted (subStats (processDatum pi drv jobID datumIndex inputs)) =
           (if statsMiss pi drv inputs then 0 else 1)"
proof (cases "InspectTag drv (HashDatum drv (PipelineName pi) (Salt pi) inputs) = None")
  case True
  with assms cacheHit_counted [of pi drv "HashDatum drv (PipelineName pi) (Salt pi) inputs"]
  show ?thesis
    by (simp add: processDatum_def statsMiss_def Let_def)
next
  case False
  with assms show ?thesis
    by (auto simp: processDatum_def statsMiss_def Let_def writeStats_subStats classify_counted
        result_def split: option.splits)
qed

lemma mergeStats_counted:
  assumes "mergeStats x y = (x', None)"
  shows "counted x' = counted x + counted y"
proof (cases "ProcessStats y")
  case None
  from mergeStats_ok_nil [OF assms None] show ?thesis
    by (simp add: counted_def mergeCounts_fields)
next
  case (Some yps)
  from mergeStats_ok_some [OF assms Some] show ?thesis
    by (auto simp: counted_def mergeCounts_fields)
qed

lemma fanOut_counted:
  "fanOut pi env jobID k ds (stats, recoveredDatums) = ((stats', recoveredDatums'), None) \<Longrightarrow>
   counted stats' + of_nat (missCount pi env k ds) = counted stats + of_nat (length ds)"
proof (induction ds arbitrary: k stats recoveredDatums)
  case Nil
  then show ?case by simp
next
  case (Cons d ds)
  obtain index inputs where d: "d = (index, inputs)" by (cases d)
  define r where "r = processDatum pi (DatumDriver env k) jobID index inputs"
  obtain s1 statsErr where m: "mergeStats stats (subStats r) = (s1, statsErr)" by (metis surj_pair)
  from Cons.prems d r_def m have ok: "NewLoggerErr env k = None" "retErr r = None" "statsErr = None"
    by (auto simp: Let_def split: option.splits if_splits)
  with Cons.prems d r_def m
  have rest: "fanOut pi env jobID (Suc k) ds (s1, recoveredDatums @ subRecovered r) = ((stats', recoveredDatums'), None)"
    by (simp add: Let_def)
  from mergeStats_counted [OF m [unfolded ok(3)]] have "counted s1 = counted stats + counted (subStats r)" .
  moreover from processDatum_counted ok(2)
  have "counted (subStats r) = (if statsMiss pi (DatumDriver env k) inputs then 0 else 1)"
    by (simp add: r_def)
  ultimately show ?case
    using Cons.IH [OF rest] d by (simp add: algebra_simps)
qed

text \<open>
  C2 (what the code does). When the fan-out of a subtask completes without error, the
  sum of the four counters in the merged stats, plus the number of datums that took the
  stats-miss path of the cache probe, is the number of datums of the input list: every
  datum on that path is missing from the sum.
\<close>

theorem processDatums_counted:
  assumes "processDatums pi env jobID = ((stats, recoveredDatums), None)"
  shows "\<exists>allDatums. ReadDatums env = Inr allDatums \<and>
           counted stats + of_nat (missCount pi env 0 allDatums) = of_nat (length allDatums)"
proof -
  from assms obtain allDatums where rd: "ReadDatums env = Inr allDatums"
    and f: "fanOut pi env jobID 0 allDatums (emptyStats\<lparr>ProcessStats := Some zeroProcessStats\<rparr>, []) =
      ((stats, recoveredDatums), None)"
    by (auto simp: processDatums_def Let_def split: option.splits sum.splits)
  from fanOut_counted [OF f] have
    "counted stats + of_nat (missCount pi env 0 allDatums) = of_nat (length allDatums)"
    by (simp add: counted_def emptyStats_def)
  with rd show ?thesis by blast
qed

theorem processDatums_counted_stats_miss:
  "processDatums statsPipeline (oneDatumEnv statsMissDriver) ''j1'' =
     ((emptyStats\<lparr>ProcessStats := Some zeroProcessStats\<rparr>, []), None) \<and>
   ReadDatums (oneDatumEnv statsMissDriver) = Inr [(0, [])] \<and>
   counted (emptyStats\<lparr>ProcessStats := Some zeroProcessStats\<rparr>) = 0 \<and>
   length [(0 :: int, [] :: Input list)] = 1 \<and>
   missCount statsPipeline (oneDatumEnv statsMissDriver) 0 [(0, [])] = 1"
proof -
  have run: "processDatums statsPipeline (oneDatumEnv statsMissDriver) ''j1'' =
     ((emptyStats\<lparr>ProcessStats := Some zeroProcessStats\<rparr>, []), None)"
    by code_simp
  have rd: "ReadDatums (oneDatumEnv statsMissDriver) = Inr [(0, [])]"
    by (simp add: oneDatumEnv_def)
  have miss: "missCount statsPipeline (oneDatumEnv statsMissDriver) 0 [(0, [])] = 1"
    by (simp add: statsMiss_def oneDatumEnv_def statsMissDriver_def missDriver_def statsPipeline_def
        statsTagSuffix_def Let_def)
  from processDatums_counted [OF run] rd miss
  have "counted (emptyStats\<lparr>ProcessStats := Some zeroProcessStats\<rparr>) = 0"
    by simp
  with run rd miss show ?thesis by simp
qed

end
